theory Spec2Isabelle
  imports Main "HOL-Library.Char_ord" "HOL-Library.List_Lexorder"
begin

section \<open>Certificate reconciliation: \<open>sync\<close>, \<open>issue\<close> and \<open>equalUnsorted\<close> of \<open>sync.go\<close>\<close>

text \<open>
  Go strings are byte sequences and \<open>sort.Strings\<close> orders them by the byte-wise
  lexicographic \<open><\<close>. A Go string is a \<open>string\<close> (a list of 8-bit characters), ordered
  by the lexicographic order on lists over the byte order on characters, and
  \<open>sort.Strings\<close> is \<open>sort\<close>: equal strings cannot be told apart, so the sorted
  permutation is unique.
\<close>

subsection \<open>\<open>equalUnsorted\<close>\<close>

text \<open>
  \<open>make([]string, n)\<close>: a fresh slice of \<open>n\<close> empty strings.
\<close>

definition make_strings :: "nat \<Rightarrow> string list" where
  "make_strings n = replicate n []"

text \<open>
  The loop \<open>for i, s := range s1_2 { if s != s2_2[i] { return false } }\<close>, started at
  index \<open>i\<close> with the remaining elements of the ranged slice. Indexing the second
  slice out of range is a run-time panic in Go: the result \<open>None\<close>.
\<close>

fun range_compare :: "nat \<Rightarrow> string list \<Rightarrow> string list \<Rightarrow> bool option" where
  "range_compare i [] t = Some True"
| "range_compare i (s # rest) t =
     (if i < length t
      then (if s \<noteq> t ! i then Some False else range_compare (Suc i) rest t)
      else None)"

text \<open>
  \<open>equalUnsorted\<close> sorts its two arguments in place, so the model returns, next to
  the result, the contents of both argument slices after the call. The two arguments
  are taken to be backed by separate arrays, as they are at the only call site.
\<close>

definition equalUnsorted ::
  "string list \<Rightarrow> string list \<Rightarrow> bool option \<times> string list \<times> string list" where
  "equalUnsorted s1 s2 =
     (if length s1 \<noteq> length s2 then (Some False, s1, s2)
      else
        let s1_2 = make_strings (length s1);
            s2_2 = make_strings (length s2);
            s1' = sort s1;
            s2' = sort s2
        in (range_compare 0 s1_2 s2_2, s1', s2'))"

text \<open>
  The comparison the specification describes: equal length and, after sorting both
  sequences independently, element-wise identical.
\<close>

definition spec_equalSets :: "string list \<Rightarrow> string list \<Rightarrow> bool" where
  "spec_equalSets s1 s2 \<longleftrightarrow> length s1 = length s2 \<and> sort s1 = sort s2"

subsection \<open>Errors, objects and the collaborators of a reconciliation pass\<close>

text \<open>
  A Go \<open>error\<close> value, as far as the code looks at it: its message (\<open>err.Error()\<close>) and
  whether the API machinery classifies it as not-found (\<open>k8sErrors.IsNotFound\<close>) or as
  already-exists. An error built by \<open>fmt.Errorf\<close> is neither.
\<close>

datatype error = NotFound string | AlreadyExists string | Other string

fun Error :: "error \<Rightarrow> string" where
  "Error (NotFound m) = m"
| "Error (AlreadyExists m) = m"
| "Error (Other m) = m"

fun IsNotFound :: "error \<Rightarrow> bool" where
  "IsNotFound (NotFound m) = True"
| "IsNotFound (AlreadyExists m) = False"
| "IsNotFound (Other m) = False"

fun IsAlreadyExists :: "error \<Rightarrow> bool" where
  "IsAlreadyExists (NotFound m) = False"
| "IsAlreadyExists (AlreadyExists m) = True"
| "IsAlreadyExists (Other m) = False"

definition Errorf :: "string \<Rightarrow> error" where
  "Errorf msg = Other msg"

text \<open>The format \<open>'%s'\<close>: the argument between two single quotes.\<close>

definition quoted :: "string \<Rightarrow> string" where
  "quoted s = CHR 0x27 # s @ [CHR 0x27]"

type_synonym bytes = string

record CertificateSpec =
  Issuer :: string
  SecretName :: string
  Domains :: "string list"

record Certificate =
  Name :: string
  Namespace :: string
  Spec :: CertificateSpec

record IssuerObj =
  IssuerName :: string
  IssuerNamespace :: string
  Ready :: bool

record Secret =
  ObjectName :: string
  ObjectNamespace :: string
  Data :: "string \<rightharpoonup> bytes"

record x509_Certificate =
  DNSNames :: "string list"

text \<open>The two well-known keys of a TLS secret, \<open>api.TLSCertKey\<close> and \<open>api.TLSPrivateKeyKey\<close>.\<close>

definition TLSCertKey :: string where
  "TLSCertKey = ''tls.crt''"

definition TLSPrivateKeyKey :: string where
  "TLSPrivateKeyKey = ''tls.key''"

text \<open>
  \<open>issuer.Interface\<close>: the two calls of an issuer implementation that the code makes.
  \<open>Issue\<close> returns the certificate and the key bytes, or an error.
\<close>

record issuer_Interface =
  Prepare :: "Certificate \<Rightarrow> error option"
  Issue :: "Certificate \<Rightarrow> error + bytes \<times> bytes"

text \<open>
  Everything \<open>sync\<close> calls and that is not in this file is a parameter: the two listers
  and the client of the controller context, the issuer factory \<open>issuer.IssuerFor\<close>, and
  the library functions \<open>pem.Decode\<close> (the \<open>Bytes\<close> of the block, \<open>None\<close> for a nil
  block), \<open>x509.ParseCertificate\<close>, \<open>x509.ParsePKCS1PrivateKey\<close> and the key's
  \<open>Validate\<close>. \<open>'k\<close> is the type of parsed private keys and \<open>'w\<close> the state of the
  credential store behind the client; \<open>Create\<close> returns its error (if any) and the new
  state of the store.
\<close>

record ('k, 'w) env =
  Issuers_Get :: "string \<Rightarrow> string \<Rightarrow> error + IssuerObj"
  IssuerFor :: "IssuerObj \<Rightarrow> error + issuer_Interface"
  Secrets_Get :: "string \<Rightarrow> string \<Rightarrow> error + Secret"
  Secrets_Create :: "'w \<Rightarrow> string \<Rightarrow> Secret \<Rightarrow> error option \<times> 'w"
  pem_Decode :: "bytes \<Rightarrow> bytes option"
  x509_ParseCertificate :: "bytes \<Rightarrow> error + x509_Certificate"
  x509_ParsePKCS1PrivateKey :: "bytes \<Rightarrow> error + 'k"
  key_Validate :: "'k \<Rightarrow> error option"

text \<open>
  The calls a pass makes on its collaborators, in order: the issuer lookup, \<open>Prepare\<close>,
  the read of the secret, a line written to the logger, \<open>Issue\<close>, and the create of the
  secret in the given namespace.
\<close>

datatype event =
    IssuerGet string string
  | PrepareCall
  | SecretGet string string
  | LogPrintf string
  | IssueCall
  | SecretCreate string Secret

text \<open>
  What a call returns: \<open>nil\<close>, an error, or a run-time panic. The certificate is passed
  by pointer, so the outcome holds it as it is after the call, next to the state of the
  credential store and the calls made.
\<close>

datatype status = NoError | Err error | Panic

record 'w outcome =
  ret :: status
  crt_after :: Certificate
  world_after :: 'w
  trace :: "event list"

subsection \<open>\<open>issue\<close>\<close>

text \<open>\<open>tr\<close> is the list of calls made so far in the pass.\<close>

definition issue ::
  "('k, 'w) env \<Rightarrow> issuer_Interface \<Rightarrow> Certificate \<Rightarrow> 'w \<Rightarrow> event list \<Rightarrow> 'w outcome" where
  "issue ctx issuer crt w tr =
     (case Issue issuer crt of
        Inl err \<Rightarrow>
          \<lparr>ret = Err (Errorf (''error issuing certificate: '' @ Error err)),
           crt_after = crt, world_after = w, trace = tr @ [IssueCall]\<rparr>
      | Inr (cert, key) \<Rightarrow>
          (let secret = \<lparr>ObjectName = SecretName (Spec crt),
                         ObjectNamespace = Namespace crt,
                         Data = [TLSCertKey \<mapsto> cert, TLSPrivateKeyKey \<mapsto> key]\<rparr>;
               tr' = tr @ [IssueCall, SecretCreate (Namespace crt) secret]
           in case Secrets_Create ctx w (Namespace crt) secret of
                (Some err, w') \<Rightarrow>
                  \<lparr>ret = Err (Errorf (''error saving certificate: '' @ Error err)),
                   crt_after = crt, world_after = w', trace = tr'\<rparr>
              | (None, w') \<Rightarrow>
                  \<lparr>ret = NoError, crt_after = crt, world_after = w', trace = tr'\<rparr>))"

subsection \<open>\<open>sync\<close>\<close>

text \<open>
  The second half of \<open>sync\<close>, from the point where the secret has been read: the checks
  of the stored certificate and key, each of which ends in \<open>issue\<close> when it fails.
\<close>

definition sync_secret ::
  "('k, 'w) env \<Rightarrow> issuer_Interface \<Rightarrow> Certificate \<Rightarrow> 'w \<Rightarrow> event list \<Rightarrow> Secret
     \<Rightarrow> 'w outcome" where
  "sync_secret ctx i crt w tr secret =
     (case (Data secret TLSCertKey, Data secret TLSPrivateKeyKey) of
        (Some certBytes, Some keyBytes) \<Rightarrow>
          (case pem_Decode ctx certBytes of
             None \<Rightarrow>
               issue ctx i crt w
                 (tr @ [LogPrintf (''error decoding cert PEM block in ''
                                     @ quoted (SecretName (Spec crt)))])
           | Some certDER \<Rightarrow>
          (case x509_ParseCertificate ctx certDER of
             Inl err \<Rightarrow>
               issue ctx i crt w
                 (tr @ [LogPrintf (''error parsing TLS certificate in ''
                                     @ quoted (SecretName (Spec crt)) @ '': '' @ Error err)])
           | Inr cert \<Rightarrow>
          (case pem_Decode ctx keyBytes of
             None \<Rightarrow>
               issue ctx i crt w
                 (tr @ [LogPrintf (''error decoding private key PEM block in ''
                                     @ quoted (SecretName (Spec crt)))])
           | Some keyDER \<Rightarrow>
          (case x509_ParsePKCS1PrivateKey ctx keyDER of
             Inl err \<Rightarrow>
               issue ctx i crt w
                 (tr @ [LogPrintf (''error parsing private key in ''
                                     @ quoted (SecretName (Spec crt)) @ '': '' @ Error err)])
           | Inr key \<Rightarrow>
          (case key_Validate ctx key of
             Some err \<Rightarrow>
               issue ctx i crt w
                 (tr @ [LogPrintf (''private key failed validation in ''
                                     @ quoted (SecretName (Spec crt)) @ '': '' @ Error err)])
           | None \<Rightarrow>
          (case equalUnsorted (Domains (Spec crt)) (DNSNames cert) of
             (r, domains', dnsNames') \<Rightarrow>
               (let crt' = crt\<lparr>Spec := (Spec crt)\<lparr>Domains := domains'\<rparr>\<rparr>
                in case r of
                     None \<Rightarrow>
                       \<lparr>ret = Panic, crt_after = crt', world_after = w, trace = tr\<rparr>
                   | Some False \<Rightarrow>
                       issue ctx i crt' w
                         (tr @ [LogPrintf
                            ''list of domains on certificate do not match domains in spec''])
                   | Some True \<Rightarrow>
                       \<lparr>ret = NoError, crt_after = crt', world_after = w, trace = tr\<rparr>)))))))
      | _ \<Rightarrow> issue ctx i crt w tr)"

definition sync :: "('k, 'w) env \<Rightarrow> Certificate \<Rightarrow> 'w \<Rightarrow> 'w outcome" where
  "sync ctx crt w =
     (let tr0 = [IssuerGet (Namespace crt) (Issuer (Spec crt))] in
      case Issuers_Get ctx (Namespace crt) (Issuer (Spec crt)) of
        Inl err \<Rightarrow>
          \<lparr>ret = Err (Errorf (''issuer '' @ quoted (Issuer (Spec crt))
                                @ '' for certificate '' @ quoted (Name crt)
                                @ '' does not exist'')),
           crt_after = crt, world_after = w, trace = tr0\<rparr>
      | Inr issuerObj \<Rightarrow>
          if \<not> Ready issuerObj then
            \<lparr>ret = Err (Errorf (''issuer ''
                                  @ quoted (IssuerNamespace issuerObj @ ''/''
                                            @ IssuerName issuerObj)
                                  @ '' for certificate '' @ quoted (Name crt)
                                  @ '' not ready'')),
             crt_after = crt, world_after = w, trace = tr0\<rparr>
          else
            (case IssuerFor ctx issuerObj of
               Inl err \<Rightarrow>
                 \<lparr>ret = Err (Errorf (''error getting issuer implementation for issuer ''
                                       @ quoted (IssuerName issuerObj) @ '': ''
                                       @ Error err)),
                  crt_after = crt, world_after = w, trace = tr0\<rparr>
             | Inr i \<Rightarrow>
                 (let tr1 = tr0 @ [PrepareCall] in
                  case Prepare i crt of
                    Some err \<Rightarrow>
                      \<lparr>ret = Err err, crt_after = crt, world_after = w, trace = tr1\<rparr>
                  | None \<Rightarrow>
                      (let tr2 = tr1 @ [SecretGet (Namespace crt) (SecretName (Spec crt))] in
                       case Secrets_Get ctx (Namespace crt) (SecretName (Spec crt)) of
                         Inl err \<Rightarrow>
                           if IsNotFound err then issue ctx i crt w tr2
                           else \<lparr>ret = Err err, crt_after = crt, world_after = w,
                                 trace = tr2\<rparr>
                       | Inr secret \<Rightarrow> sync_secret ctx i crt w tr2 secret))))"

subsection \<open>What a pass did\<close>

definition issue_attempted :: "'w outcome \<Rightarrow> bool" where
  "issue_attempted out \<longleftrightarrow> IssueCall \<in> set (trace out)"

fun is_store_read :: "event \<Rightarrow> bool" where
  "is_store_read (SecretGet ns n) = True"
| "is_store_read e = False"

fun is_store_write :: "event \<Rightarrow> bool" where
  "is_store_write (SecretCreate ns s) = True"
| "is_store_write e = False"

definition store_reads :: "'w outcome \<Rightarrow> event list" where
  "store_reads out = filter is_store_read (trace out)"

definition store_writes :: "'w outcome \<Rightarrow> event list" where
  "store_writes out = filter is_store_write (trace out)"

text \<open>The calls of every pass that gets as far as reading the secret.\<close>

definition calls_to_read :: "Certificate \<Rightarrow> event list" where
  "calls_to_read crt =
     [IssuerGet (Namespace crt) (Issuer (Spec crt)), PrepareCall,
      SecretGet (Namespace crt) (SecretName (Spec crt))]"

subsection \<open>Validity of a stored credential\<close>

text \<open>
  A stored credential is valid for a request when both well-known fields are present,
  the certificate and the private key both decode and parse, the key passes its
  validation, and the names of the certificate equal the requested domains under the
  comparison \<open>eq\<close>. The specification's validity takes the comparison it specifies,
  \<open>spec_equalSets\<close>.
\<close>

definition stored_valid ::
  "(string list \<Rightarrow> string list \<Rightarrow> bool) \<Rightarrow> ('k, 'w) env \<Rightarrow> Certificate \<Rightarrow> Secret \<Rightarrow> bool" where
  "stored_valid eq ctx crt secret =
     (case (Data secret TLSCertKey, Data secret TLSPrivateKeyKey) of
        (Some certBytes, Some keyBytes) \<Rightarrow>
          (case (pem_Decode ctx certBytes, pem_Decode ctx keyBytes) of
             (Some certDER, Some keyDER) \<Rightarrow>
               (case (x509_ParseCertificate ctx certDER,
                      x509_ParsePKCS1PrivateKey ctx keyDER) of
                  (Inr cert, Inr key) \<Rightarrow>
                    key_Validate ctx key = None \<and> eq (Domains (Spec crt)) (DNSNames cert)
                | _ \<Rightarrow> False)
           | _ \<Rightarrow> False)
      | _ \<Rightarrow> False)"

definition spec_valid :: "('k, 'w) env \<Rightarrow> Certificate \<Rightarrow> Secret \<Rightarrow> bool" where
  "spec_valid = stored_valid spec_equalSets"

definition same_length :: "string list \<Rightarrow> string list \<Rightarrow> bool" where
  "same_length s1 s2 \<longleftrightarrow> length s1 = length s2"

subsection \<open>A concrete instance\<close>

text \<open>
  Stand-ins for the collaborators, to run the model on concrete passes: an issuer lister
  that knows the issuer \<open>prod-ca\<close>, an issuer implementation with fixed answers, a
  credential store that refuses to create a secret that exists, and toy encodings
  (\<open>PEM:\<close> in front of a block, \<open>SAN:\<close> in front of the single name of a certificate,
  \<open>RSA:\<close> in front of a key, which validates when it is \<open>consistent\<close>).
\<close>

definition fake_Issuers_Get :: "bool \<Rightarrow> string \<Rightarrow> string \<Rightarrow> error + IssuerObj" where
  "fake_Issuers_Get ready ns n =
     (if n = ''prod-ca''
      then Inr \<lparr>IssuerName = n, IssuerNamespace = ns, Ready = ready\<rparr>
      else Inl (NotFound ''issuer not found''))"

definition fake_issuer :: "error option \<Rightarrow> (error + bytes \<times> bytes) \<Rightarrow> issuer_Interface" where
  "fake_issuer p r = \<lparr>Prepare = (\<lambda>crt. p), Issue = (\<lambda>crt. r)\<rparr>"

definition fake_Create ::
  "Secret list \<Rightarrow> string \<Rightarrow> Secret \<Rightarrow> error option \<times> Secret list" where
  "fake_Create w ns s =
     (if list_ex (\<lambda>t. ObjectNamespace t = ns \<and> ObjectName t = ObjectName s) w
      then (Some (AlreadyExists ''secret already exists''), w)
      else (None, w @ [s]))"

definition fake_pem_Decode :: "bytes \<Rightarrow> bytes option" where
  "fake_pem_Decode b = (if take 4 b = ''PEM:'' then Some (drop 4 b) else None)"

definition fake_ParseCertificate :: "bytes \<Rightarrow> error + x509_Certificate" where
  "fake_ParseCertificate b =
     (if take 4 b = ''SAN:'' then Inr \<lparr>DNSNames = [drop 4 b]\<rparr>
      else Inl (Other ''asn1: structure error''))"

definition fake_ParsePrivateKey :: "bytes \<Rightarrow> error + string" where
  "fake_ParsePrivateKey b =
     (if take 4 b = ''RSA:'' then Inr (drop 4 b)
      else Inl (Other ''asn1: structure error''))"

definition fake_Validate :: "string \<Rightarrow> error option" where
  "fake_Validate k =
     (if k = ''consistent'' then None else Some (Other ''crypto/rsa: invalid exponents''))"

text \<open>
  The environment of a pass: whether the issuer is ready, what the issuer factory
  returns, and what the read of the secret returns.
\<close>

definition fake_env ::
  "bool \<Rightarrow> (error + issuer_Interface) \<Rightarrow> (error + Secret) \<Rightarrow> (string, Secret list) env" where
  "fake_env ready impl stored =
     \<lparr>Issuers_Get = fake_Issuers_Get ready,
      IssuerFor = (\<lambda>obj. impl),
      Secrets_Get = (\<lambda>ns n. stored),
      Secrets_Create = fake_Create,
      pem_Decode = fake_pem_Decode,
      x509_ParseCertificate = fake_ParseCertificate,
      x509_ParsePKCS1PrivateKey = fake_ParsePrivateKey,
      key_Validate = fake_Validate\<rparr>"

definition site_crt :: Certificate where
  "site_crt = \<lparr>Name = ''site'', Namespace = ''default'',
               Spec = \<lparr>Issuer = ''prod-ca'', SecretName = ''site-tls'',
                       Domains = [''a.com'']\<rparr>\<rparr>"

definition tls_secret :: "bytes \<Rightarrow> bytes \<Rightarrow> Secret" where
  "tls_secret c k = \<lparr>ObjectName = ''site-tls'', ObjectNamespace = ''default'',
                     Data = [TLSCertKey \<mapsto> c, TLSPrivateKeyKey \<mapsto> k]\<rparr>"

text \<open>An issuer implementation that prepares and issues a credential for \<open>a.com\<close>.\<close>

definition good_issuer :: issuer_Interface where
  "good_issuer = fake_issuer None (Inr (''PEM:SAN:a.com'', ''PEM:RSA:consistent''))"

lemmas fake_defs =
  fake_env_def fake_Issuers_Get_def fake_issuer_def fake_Create_def fake_pem_Decode_def
  fake_ParseCertificate_def fake_ParsePrivateKey_def fake_Validate_def site_crt_def
  tls_secret_def good_issuer_def TLSCertKey_def TLSPrivateKeyKey_def

lemmas run_defs =
  sync_def sync_secret_def issue_def equalUnsorted_def make_strings_def calls_to_read_def
  Let_def

subsection \<open>Properties of \<open>equalUnsorted\<close>\<close>

lemma range_compare_fresh:
  "i + length rest = n \<Longrightarrow>
   range_compare i (replicate (length rest) []) (replicate n []) = Some True"
  by (induction rest arbitrary: i) auto

lemma range_compare_make_strings:
  "range_compare 0 (make_strings n) (make_strings n) = Some True"
  using range_compare_fresh [of 0 "replicate n []" n] by (simp add: make_strings_def)

text \<open>
  The result of \<open>equalUnsorted\<close> is the length test and nothing else; the loop never
  indexes out of range.
\<close>

lemma equalUnsorted_result:
  "fst (equalUnsorted s1 s2) = Some (length s1 = length s2)"
  by (simp add: equalUnsorted_def Let_def range_compare_make_strings)

lemma equalUnsorted_effect:
  "snd (equalUnsorted s1 s2) =
     (if length s1 = length s2 then (sort s1, sort s2) else (s1, s2))"
  by (simp add: equalUnsorted_def Let_def)

text \<open>
  C1. The specified comparator returns true iff the two sequences have equal length and
  are element-wise identical after sorting. The code does not: on \<open>["a.com"]\<close> and
  \<open>["b.com"]\<close>, which differ after sorting, \<open>equalUnsorted\<close> returns true, because the
  loop compares the two fresh slices and not the sorted arguments.
\<close>

theorem equalUnsorted_accepts_different_names:
  "fst (equalUnsorted [''a.com''] [''b.com'']) = Some True
   \<and> \<not> spec_equalSets [''a.com''] [''b.com'']"
  by (simp add: equalUnsorted_def make_strings_def spec_equalSets_def)

text \<open>
  C2. For every pair of string sequences of equal length, \<open>equalUnsorted\<close> returns true,
  whatever the sequences contain.
\<close>

theorem equalUnsorted_true_on_equal_length:
  "length s1 = length s2 \<Longrightarrow> fst (equalUnsorted s1 s2) = Some True"
  by (simp add: equalUnsorted_def Let_def range_compare_make_strings)

theorem equalUnsorted_true_on_equal_length_witness:
  "length [''example.com'', ''www.example.com''] = length [''other.org'', ''x.net'']
   \<and> fst (equalUnsorted [''example.com'', ''www.example.com''] [''other.org'', ''x.net''])
       = Some True"
  using equalUnsorted_true_on_equal_length
          [of "[''example.com'', ''www.example.com'']" "[''other.org'', ''x.net'']"]
  by simp

text \<open>
  C5. \<open>equalUnsorted\<close> is required to leave its caller-owned arguments as they were.
  The code sorts them in place: called on \<open>["b.com", "a.com"]\<close> and
  \<open>["d.com", "c.com"]\<close>, it leaves \<open>["a.com", "b.com"]\<close> and \<open>["c.com", "d.com"]\<close> in
  the caller's slices.
\<close>

theorem equalUnsorted_reorders_arguments:
  "snd (equalUnsorted [''b.com'', ''a.com''] [''d.com'', ''c.com''])
     = ([''a.com'', ''b.com''], [''c.com'', ''d.com''])
   \<and> snd (equalUnsorted [''b.com'', ''a.com''] [''d.com'', ''c.com''])
     \<noteq> ([''b.com'', ''a.com''], [''d.com'', ''c.com''])"
  by (simp add: equalUnsorted_def make_strings_def)

text \<open>
  C10. \<open>equalUnsorted\<close> is symmetric: swapping the two arguments does not change the
  boolean it returns.
\<close>

theorem equalUnsorted_symmetric:
  "fst (equalUnsorted s1 s2) = fst (equalUnsorted s2 s1)"
  by (simp add: equalUnsorted_def Let_def range_compare_make_strings)

theorem equalUnsorted_symmetric_witness:
  "fst (equalUnsorted [''a.com'', ''b.com''] [''c.com'']) = Some False
   \<and> fst (equalUnsorted [''c.com''] [''a.com'', ''b.com'']) = Some False"
  using equalUnsorted_symmetric [of "[''a.com'', ''b.com'']" "[''c.com'']"]
  by (simp add: equalUnsorted_def)

subsection \<open>Properties of \<open>issue\<close>\<close>

lemma issue_attempted_issue: "issue_attempted (issue ctx i crt w tr)"
  by (auto simp: issue_attempted_def issue_def Let_def split: sum.splits option.splits prod.splits)

lemma issue_attempted_record:
  "issue_attempted \<lparr>ret = r, crt_after = c, world_after = w, trace = tr\<rparr>
     \<longleftrightarrow> IssueCall \<in> set tr"
  by (simp add: issue_attempted_def)

lemma store_writes_record:
  "store_writes \<lparr>ret = r, crt_after = c, world_after = w, trace = tr\<rparr>
     = filter is_store_write tr"
  by (simp add: store_writes_def)

lemma store_reads_record:
  "store_reads \<lparr>ret = r, crt_after = c, world_after = w, trace = tr\<rparr>
     = filter is_store_read tr"
  by (simp add: store_reads_def)

text \<open>\<open>issue\<close> leaves the certificate object as it is.\<close>

lemma issue_crt_after: "crt_after (issue ctx i crt w tr) = crt"
  by (auto simp: issue_def Let_def split: sum.splits option.splits prod.splits)

text \<open>
  When \<open>Issue\<close> and the create both succeed, \<open>issue\<close> returns \<open>nil\<close> and the store is the
  one the create left.
\<close>

lemma issue_success:
  assumes "Issue issuer crt = Inr (cert, key)"
      and "Secrets_Create ctx w (Namespace crt)
             \<lparr>ObjectName = SecretName (Spec crt), ObjectNamespace = Namespace crt,
              Data = [TLSCertKey \<mapsto> cert, TLSPrivateKeyKey \<mapsto> key]\<rparr> = (None, w')"
  shows "ret (issue ctx issuer crt w tr) = NoError \<and> world_after (issue ctx issuer crt w tr) = w'"
  using assms by (simp add: issue_def Let_def)

text \<open>
  C4. The claim: when the create made by \<open>issue\<close> fails with an already-exists error,
  \<open>issue\<close> returns success. The code has no such case: with the secret \<open>site-tls\<close> in the
  store, the create fails with an already-exists error and \<open>issue\<close> returns the error
  \<open>error saving certificate: secret already exists\<close>.
\<close>

theorem issue_already_exists_counterexample:
  "Issue good_issuer site_crt = Inr (''PEM:SAN:a.com'', ''PEM:RSA:consistent'')
   \<and> fst (fake_Create [tls_secret ''PEM:SAN:a.com'' ''PEM:RSA:consistent''] ''default''
            (tls_secret ''PEM:SAN:a.com'' ''PEM:RSA:consistent''))
       = Some (AlreadyExists ''secret already exists'')
   \<and> IsAlreadyExists (AlreadyExists ''secret already exists'')
   \<and> ret (issue (fake_env True (Inr good_issuer) (Inl (NotFound ''secret not found'')))
            good_issuer site_crt [tls_secret ''PEM:SAN:a.com'' ''PEM:RSA:consistent''] [])
       = Err (Other ''error saving certificate: secret already exists'')
   \<and> ret (issue (fake_env True (Inr good_issuer) (Inl (NotFound ''secret not found'')))
            good_issuer site_crt [tls_secret ''PEM:SAN:a.com'' ''PEM:RSA:consistent''] [])
       \<noteq> NoError"
  by (simp add: issue_def fake_defs Errorf_def Let_def)

text \<open>
  C4, as amended. When the create made by \<open>issue\<close> fails, with an already-exists error
  or with any other, \<open>issue\<close> returns the error \<open>error saving certificate: ...\<close> with the
  message of the failure; the store is as the failed create left it.
\<close>

theorem issue_create_failure_is_returned:
  assumes "Issue issuer crt = Inr (cert, key)"
      and "Secrets_Create ctx w (Namespace crt)
             \<lparr>ObjectName = SecretName (Spec crt), ObjectNamespace = Namespace crt,
              Data = [TLSCertKey \<mapsto> cert, TLSPrivateKeyKey \<mapsto> key]\<rparr> = (Some err, w')"
  shows "ret (issue ctx issuer crt w tr)
           = Err (Errorf (''error saving certificate: '' @ Error err))
         \<and> world_after (issue ctx issuer crt w tr) = w'"
  using assms by (simp add: issue_def Let_def)

theorem issue_create_failure_is_returned_witness:
  "Issue good_issuer site_crt = Inr (''PEM:SAN:a.com'', ''PEM:RSA:consistent'')
   \<and> fake_Create [tls_secret ''old'' ''old''] ''default''
        (tls_secret ''PEM:SAN:a.com'' ''PEM:RSA:consistent'')
       = (Some (AlreadyExists ''secret already exists''), [tls_secret ''old'' ''old''])
   \<and> ret (issue (fake_env True (Inr good_issuer) (Inl (NotFound ''secret not found'')))
            good_issuer site_crt [tls_secret ''old'' ''old''] [])
       = Err (Other ''error saving certificate: secret already exists'')
   \<and> world_after (issue (fake_env True (Inr good_issuer) (Inl (NotFound ''secret not found'')))
            good_issuer site_crt [tls_secret ''old'' ''old''] [])
       = [tls_secret ''old'' ''old'']"
proof -
  let ?ctx = "fake_env True (Inr good_issuer) (Inl (NotFound ''secret not found''))"
  have h1: "Issue good_issuer site_crt = Inr (''PEM:SAN:a.com'', ''PEM:RSA:consistent'')"
    by (simp add: good_issuer_def fake_issuer_def)
  have h2: "fake_Create [tls_secret ''old'' ''old''] ''default''
              (tls_secret ''PEM:SAN:a.com'' ''PEM:RSA:consistent'')
            = (Some (AlreadyExists ''secret already exists''), [tls_secret ''old'' ''old''])"
    by (simp add: fake_Create_def tls_secret_def)
  have h3: "Secrets_Create ?ctx [tls_secret ''old'' ''old''] (Namespace site_crt)
              \<lparr>ObjectName = SecretName (Spec site_crt), ObjectNamespace = Namespace site_crt,
               Data = [TLSCertKey \<mapsto> ''PEM:SAN:a.com'',
                       TLSPrivateKeyKey \<mapsto> ''PEM:RSA:consistent'']\<rparr>
            = (Some (AlreadyExists ''secret already exists''), [tls_secret ''old'' ''old''])"
    using h2 by (simp add: fake_env_def site_crt_def tls_secret_def)
  from issue_create_failure_is_returned [OF h1 h3, of "[]"]
  show ?thesis using h1 h2 by (simp add: Errorf_def)
qed

text \<open>
  C6. If the \<open>Issue\<close> call of the issuer fails, \<open>issue\<close> returns the error
  \<open>error issuing certificate: ...\<close> and makes no store write: the only call it adds is
  the \<open>Issue\<close> call, and the store is unchanged.
\<close>

theorem issue_failure_without_write:
  assumes "Issue issuer crt = Inl err"
  shows "issue ctx issuer crt w tr =
           \<lparr>ret = Err (Errorf (''error issuing certificate: '' @ Error err)),
            crt_after = crt, world_after = w, trace = tr @ [IssueCall]\<rparr>
         \<and> store_writes (issue ctx issuer crt w tr) = filter is_store_write tr"
  using assms by (simp add: issue_def store_writes_def)

theorem issue_failure_without_write_witness:
  "Issue (fake_issuer None (Inl (Other ''rate limited''))) site_crt
     = Inl (Other ''rate limited'')
   \<and> ret (issue (fake_env True (Inr good_issuer) (Inl (NotFound ''secret not found'')))
            (fake_issuer None (Inl (Other ''rate limited''))) site_crt [] [])
       = Err (Other ''error issuing certificate: rate limited'')
   \<and> world_after (issue (fake_env True (Inr good_issuer) (Inl (NotFound ''secret not found'')))
            (fake_issuer None (Inl (Other ''rate limited''))) site_crt [] []) = []
   \<and> store_writes (issue (fake_env True (Inr good_issuer) (Inl (NotFound ''secret not found'')))
            (fake_issuer None (Inl (Other ''rate limited''))) site_crt [] []) = []"
proof -
  have h: "Issue (fake_issuer None (Inl (Other ''rate limited''))) site_crt
             = Inl (Other ''rate limited'')"
    by (simp add: fake_issuer_def)
  from issue_failure_without_write
         [OF h, of "fake_env True (Inr good_issuer) (Inl (NotFound ''secret not found''))"
            "[]" "[]"]
  show ?thesis using h by (simp add: Errorf_def store_writes_def)
qed

subsection \<open>Properties of \<open>sync\<close>\<close>

text \<open>
  Once the secret has been read, issuance is attempted exactly when the stored credential
  fails one of the checks of the code, the last of which compares the two name lists by
  their lengths only.
\<close>

lemma sync_secret_issue_iff:
  "issue_attempted (sync_secret ctx i crt w tr secret)
     \<longleftrightarrow> IssueCall \<in> set tr \<or> \<not> stored_valid same_length ctx crt secret"
  by (auto simp: sync_secret_def stored_valid_def same_length_def issue_attempted_issue
        issue_attempted_record equalUnsorted_def Let_def range_compare_make_strings
      split: option.splits sum.splits prod.splits bool.splits)

lemma sync_issue_iff:
  assumes "Issuers_Get ctx (Namespace crt) (Issuer (Spec crt)) = Inr issuerObj"
      and "Ready issuerObj"
      and "IssuerFor ctx issuerObj = Inr i"
      and "Prepare i crt = None"
      and "Secrets_Get ctx (Namespace crt) (SecretName (Spec crt)) = Inr secret"
  shows "issue_attempted (sync ctx crt w) \<longleftrightarrow> \<not> stored_valid same_length ctx crt secret"
  using assms by (simp add: sync_def Let_def sync_secret_issue_iff)

text \<open>
  A credential that is valid in the specification's sense passes the checks of the code,
  so a pass that attempts issuance on a stored credential found one that is not valid.
\<close>

lemma spec_valid_passes_checks:
  "spec_valid ctx crt secret \<Longrightarrow> stored_valid same_length ctx crt secret"
  by (auto simp: spec_valid_def stored_valid_def same_length_def spec_equalSets_def
      split: option.splits sum.splits)

lemma sync_issue_only_if_not_valid:
  assumes "Issuers_Get ctx (Namespace crt) (Issuer (Spec crt)) = Inr issuerObj"
      and "Ready issuerObj"
      and "IssuerFor ctx issuerObj = Inr i"
      and "Prepare i crt = None"
      and "Secrets_Get ctx (Namespace crt) (SecretName (Spec crt)) = Inr secret"
      and "issue_attempted (sync ctx crt w)"
  shows "\<not> spec_valid ctx crt secret"
  using assms sync_issue_iff [OF assms(1-5), of w] spec_valid_passes_checks by blast

text \<open>A read failure other than not-found never leads to issuance, wherever the pass stops.\<close>

lemma sync_never_issues_on_read_failure:
  assumes "Secrets_Get ctx (Namespace crt) (SecretName (Spec crt)) = Inl err"
      and "\<not> IsNotFound err"
  shows "\<not> issue_attempted (sync ctx crt w)"
  using assms
  by (simp add: sync_def Let_def issue_attempted_record split: sum.splits option.splits)

text \<open>
  C3. The claim: in a pass whose issuer resolves and is ready, issuance is attempted if
  and only if the stored credential is absent or not valid, where a valid credential has
  a certificate whose names are set-equal to the requested domains. The code does not
  reissue on a name mismatch of equal length: for the request for \<open>a.com\<close> and a stored,
  well-formed credential for \<open>b.com\<close>, the credential is not valid and the pass returns
  \<open>nil\<close> without calling \<open>Issue\<close> and without a store write.
\<close>

theorem sync_keeps_credential_for_other_domain:
  "fake_Issuers_Get True ''default'' ''prod-ca''
     = Inr \<lparr>IssuerName = ''prod-ca'', IssuerNamespace = ''default'', Ready = True\<rparr>
   \<and> \<not> spec_valid
          (fake_env True (Inr good_issuer)
             (Inr (tls_secret ''PEM:SAN:b.com'' ''PEM:RSA:consistent'')))
          site_crt (tls_secret ''PEM:SAN:b.com'' ''PEM:RSA:consistent'')
   \<and> ret (sync (fake_env True (Inr good_issuer)
                   (Inr (tls_secret ''PEM:SAN:b.com'' ''PEM:RSA:consistent'')))
            site_crt []) = NoError
   \<and> \<not> issue_attempted
          (sync (fake_env True (Inr good_issuer)
                   (Inr (tls_secret ''PEM:SAN:b.com'' ''PEM:RSA:consistent'')))
             site_crt [])
   \<and> trace (sync (fake_env True (Inr good_issuer)
                     (Inr (tls_secret ''PEM:SAN:b.com'' ''PEM:RSA:consistent'')))
              site_crt [])
       = [IssuerGet ''default'' ''prod-ca'', PrepareCall, SecretGet ''default'' ''site-tls'']"
  by (simp add: run_defs fake_defs issue_attempted_def spec_valid_def stored_valid_def
        spec_equalSets_def)

text \<open>
  C7. A stored credential whose certificate field is malformed PEM, with both well-known
  fields present, in a pass that reaches it (the issuer is found and ready, its
  implementation resolves and prepares): the decode failure is not returned as an error.
  The pass writes a log line and continues as \<open>issue\<close>, whose outcome is the outcome of
  the pass.
\<close>

theorem sync_malformed_cert_pem_issues:
  assumes "Issuers_Get ctx (Namespace crt) (Issuer (Spec crt)) = Inr issuerObj"
      and "Ready issuerObj"
      and "IssuerFor ctx issuerObj = Inr i"
      and "Prepare i crt = None"
      and "Secrets_Get ctx (Namespace crt) (SecretName (Spec crt)) = Inr secret"
      and "Data secret TLSCertKey = Some certBytes"
      and "Data secret TLSPrivateKeyKey = Some keyBytes"
      and "pem_Decode ctx certBytes = None"
  shows "sync ctx crt w =
           issue ctx i crt w
             (calls_to_read crt
              @ [LogPrintf (''error decoding cert PEM block in ''
                              @ quoted (SecretName (Spec crt)))])
         \<and> issue_attempted (sync ctx crt w)"
  using assms
  by (simp add: sync_def sync_secret_def Let_def calls_to_read_def issue_attempted_issue)

theorem sync_malformed_cert_pem_issues_witness:
  "fake_Issuers_Get True ''default'' ''prod-ca''
     = Inr \<lparr>IssuerName = ''prod-ca'', IssuerNamespace = ''default'', Ready = True\<rparr>
   \<and> Prepare good_issuer site_crt = None
   \<and> Data (tls_secret ''not a PEM block'' ''PEM:RSA:consistent'') TLSCertKey
       = Some ''not a PEM block''
   \<and> Data (tls_secret ''not a PEM block'' ''PEM:RSA:consistent'') TLSPrivateKeyKey
       = Some ''PEM:RSA:consistent''
   \<and> fake_pem_Decode ''not a PEM block'' = None
   \<and> issue_attempted
        (sync (fake_env True (Inr good_issuer)
                 (Inr (tls_secret ''not a PEM block'' ''PEM:RSA:consistent'')))
           site_crt [])
   \<and> ret (sync (fake_env True (Inr good_issuer)
                   (Inr (tls_secret ''not a PEM block'' ''PEM:RSA:consistent'')))
            site_crt []) = NoError
   \<and> world_after (sync (fake_env True (Inr good_issuer)
                           (Inr (tls_secret ''not a PEM block'' ''PEM:RSA:consistent'')))
                    site_crt [])
       = [tls_secret ''PEM:SAN:a.com'' ''PEM:RSA:consistent'']"
proof -
  let ?sec = "tls_secret ''not a PEM block'' ''PEM:RSA:consistent''"
  let ?ctx = "fake_env True (Inr good_issuer) (Inr ?sec)"
  let ?obj = "\<lparr>IssuerName = ''prod-ca'', IssuerNamespace = ''default'', Ready = True\<rparr>"
  have g: "fake_Issuers_Get True ''default'' ''prod-ca'' = Inr ?obj"
    by (simp add: fake_Issuers_Get_def)
  have h1: "Issuers_Get ?ctx (Namespace site_crt) (Issuer (Spec site_crt)) = Inr ?obj"
    by (simp add: fake_env_def fake_Issuers_Get_def site_crt_def)
  have h2: "Ready ?obj" by simp
  have h3: "IssuerFor ?ctx ?obj = Inr good_issuer" by (simp add: fake_env_def)
  have h4: "Prepare good_issuer site_crt = None"
    by (simp add: good_issuer_def fake_issuer_def)
  have h5: "Secrets_Get ?ctx (Namespace site_crt) (SecretName (Spec site_crt)) = Inr ?sec"
    by (simp add: fake_env_def)
  have h6: "Data ?sec TLSCertKey = Some ''not a PEM block''"
    by (simp add: tls_secret_def TLSCertKey_def TLSPrivateKeyKey_def)
  have h7: "Data ?sec TLSPrivateKeyKey = Some ''PEM:RSA:consistent''"
    by (simp add: tls_secret_def TLSCertKey_def TLSPrivateKeyKey_def)
  have d: "fake_pem_Decode ''not a PEM block'' = None"
    by (simp add: fake_pem_Decode_def)
  have h8: "pem_Decode ?ctx ''not a PEM block'' = None"
    using d by (simp add: fake_env_def)
  note main = sync_malformed_cert_pem_issues [OF h1 h2 h3 h4 h5 h6 h7 h8, of "[]"]
  have r: "ret (sync ?ctx site_crt []) = NoError
           \<and> world_after (sync ?ctx site_crt [])
               = [tls_secret ''PEM:SAN:a.com'' ''PEM:RSA:consistent'']"
    unfolding conjunct1 [OF main] by (simp add: issue_def fake_defs Let_def)
  have a: "issue_attempted (sync ?ctx site_crt [])"
    using main by (rule conjunct2)
  show ?thesis using g h4 h6 h7 d a r by blast
qed

text \<open>
  C8. When the read of the secret fails with an error other than not-found, \<open>sync\<close>
  returns that error, calls neither \<open>Issue\<close> nor the create, and leaves the store as it
  is; only a not-found error makes the pass continue as \<open>issue\<close>.
\<close>

theorem sync_read_failure:
  assumes "Issuers_Get ctx (Namespace crt) (Issuer (Spec crt)) = Inr issuerObj"
      and "Ready issuerObj"
      and "IssuerFor ctx issuerObj = Inr i"
      and "Prepare i crt = None"
      and "Secrets_Get ctx (Namespace crt) (SecretName (Spec crt)) = Inl err"
  shows "(\<not> IsNotFound err \<longrightarrow>
            sync ctx crt w =
              \<lparr>ret = Err err, crt_after = crt, world_after = w, trace = calls_to_read crt\<rparr>
            \<and> \<not> issue_attempted (sync ctx crt w)
            \<and> store_writes (sync ctx crt w) = [])
         \<and> (IsNotFound err \<longrightarrow>
              sync ctx crt w = issue ctx i crt w (calls_to_read crt)
              \<and> issue_attempted (sync ctx crt w))"
  using assms
  by (simp add: sync_def Let_def calls_to_read_def issue_attempted_issue
        issue_attempted_record store_writes_record)

theorem sync_read_failure_witness:
  "fake_Issuers_Get True ''default'' ''prod-ca''
     = Inr \<lparr>IssuerName = ''prod-ca'', IssuerNamespace = ''default'', Ready = True\<rparr>
   \<and> Prepare good_issuer site_crt = None
   \<and> \<not> IsNotFound (Other ''connection refused'')
   \<and> ret (sync (fake_env True (Inr good_issuer) (Inl (Other ''connection refused'')))
            site_crt []) = Err (Other ''connection refused'')
   \<and> world_after (sync (fake_env True (Inr good_issuer) (Inl (Other ''connection refused'')))
                    site_crt []) = []
   \<and> \<not> issue_attempted
          (sync (fake_env True (Inr good_issuer) (Inl (Other ''connection refused'')))
             site_crt [])
   \<and> store_writes (sync (fake_env True (Inr good_issuer) (Inl (Other ''connection refused'')))
                     site_crt []) = []
   \<and> IsNotFound (NotFound ''secret not found'')
   \<and> issue_attempted
        (sync (fake_env True (Inr good_issuer) (Inl (NotFound ''secret not found'')))
           site_crt [])"
proof -
  let ?obj = "\<lparr>IssuerName = ''prod-ca'', IssuerNamespace = ''default'', Ready = True\<rparr>"
  let ?bad = "fake_env True (Inr good_issuer) (Inl (Other ''connection refused''))"
  let ?nf = "fake_env True (Inr good_issuer) (Inl (NotFound ''secret not found''))"
  have g: "fake_Issuers_Get True ''default'' ''prod-ca'' = Inr ?obj"
    by (simp add: fake_Issuers_Get_def)
  have p: "Prepare good_issuer site_crt = None"
    by (simp add: good_issuer_def fake_issuer_def)
  have b1: "Issuers_Get ?bad (Namespace site_crt) (Issuer (Spec site_crt)) = Inr ?obj"
    by (simp add: fake_env_def fake_Issuers_Get_def site_crt_def)
  have b3: "IssuerFor ?bad ?obj = Inr good_issuer" by (simp add: fake_env_def)
  have b5: "Secrets_Get ?bad (Namespace site_crt) (SecretName (Spec site_crt))
              = Inl (Other ''connection refused'')"
    by (simp add: fake_env_def)
  have n1: "Issuers_Get ?nf (Namespace site_crt) (Issuer (Spec site_crt)) = Inr ?obj"
    by (simp add: fake_env_def fake_Issuers_Get_def site_crt_def)
  have n3: "IssuerFor ?nf ?obj = Inr good_issuer" by (simp add: fake_env_def)
  have n5: "Secrets_Get ?nf (Namespace site_crt) (SecretName (Spec site_crt))
              = Inl (NotFound ''secret not found'')"
    by (simp add: fake_env_def)
  have r: "Ready ?obj" by simp
  have nb: "\<not> IsNotFound (Other ''connection refused'')" by simp
  note bad = sync_read_failure [OF b1 r b3 p b5, of "[]"]
  note nf = sync_read_failure [OF n1 r n3 p n5, of "[]"]
  have c1: "sync ?bad site_crt []
              = \<lparr>ret = Err (Other ''connection refused''), crt_after = site_crt,
                 world_after = [], trace = calls_to_read site_crt\<rparr>"
    and c2: "\<not> issue_attempted (sync ?bad site_crt [])"
    and c3: "store_writes (sync ?bad site_crt []) = []"
    using bad nb by blast+
  have nn: "IsNotFound (NotFound ''secret not found'')" by simp
  have c4: "issue_attempted (sync ?nf site_crt [])"
    using nf nn by blast
  have c5: "ret (sync ?bad site_crt []) = Err (Other ''connection refused'')"
    and c6: "world_after (sync ?bad site_crt []) = []"
    unfolding c1 by simp_all
  show ?thesis using g p c2 c3 c4 c5 c6 by simp
qed

text \<open>
  C9. When the issuer of the request is found and is not ready, \<open>sync\<close> returns the error
  \<open>issuer '<namespace>/<name>' for certificate '<name>' not ready\<close>; the only call it
  has made is the issuer lookup, so it reads no secret and writes none, and the store
  and the certificate object are as they were.
\<close>

theorem sync_issuer_not_ready:
  assumes "Issuers_Get ctx (Namespace crt) (Issuer (Spec crt)) = Inr issuerObj"
      and "\<not> Ready issuerObj"
  shows "sync ctx crt w =
           \<lparr>ret = Err (Errorf (''issuer ''
                                 @ quoted (IssuerNamespace issuerObj @ ''/''
                                           @ IssuerName issuerObj)
                                 @ '' for certificate '' @ quoted (Name crt)
                                 @ '' not ready'')),
            crt_after = crt, world_after = w,
            trace = [IssuerGet (Namespace crt) (Issuer (Spec crt))]\<rparr>
         \<and> store_reads (sync ctx crt w) = []
         \<and> store_writes (sync ctx crt w) = []"
  using assms by (simp add: sync_def store_reads_def store_writes_def)

theorem sync_issuer_not_ready_witness:
  "fake_Issuers_Get False ''default'' ''prod-ca''
     = Inr \<lparr>IssuerName = ''prod-ca'', IssuerNamespace = ''default'', Ready = False\<rparr>
   \<and> ret (sync (fake_env False (Inr good_issuer) (Inl (NotFound ''secret not found'')))
            site_crt [])
       = Err (Other (''issuer '' @ quoted ''default/prod-ca'' @ '' for certificate ''
                      @ quoted ''site'' @ '' not ready''))
   \<and> trace (sync (fake_env False (Inr good_issuer) (Inl (NotFound ''secret not found'')))
              site_crt [])
       = [IssuerGet ''default'' ''prod-ca'']
   \<and> world_after (sync (fake_env False (Inr good_issuer) (Inl (NotFound ''secret not found'')))
                    site_crt []) = []
   \<and> store_reads (sync (fake_env False (Inr good_issuer) (Inl (NotFound ''secret not found'')))
                    site_crt []) = []
   \<and> store_writes (sync (fake_env False (Inr good_issuer) (Inl (NotFound ''secret not found'')))
                     site_crt []) = []"
proof -
  let ?obj = "\<lparr>IssuerName = ''prod-ca'', IssuerNamespace = ''default'', Ready = False\<rparr>"
  let ?ctx = "fake_env False (Inr good_issuer) (Inl (NotFound ''secret not found''))"
  have g: "fake_Issuers_Get False ''default'' ''prod-ca'' = Inr ?obj"
    by (simp add: fake_Issuers_Get_def)
  have h1: "Issuers_Get ?ctx (Namespace site_crt) (Issuer (Spec site_crt)) = Inr ?obj"
    by (simp add: fake_env_def fake_Issuers_Get_def site_crt_def)
  have h2: "\<not> Ready ?obj" by simp
  note main = sync_issuer_not_ready [OF h1 h2, of "[]"]
  have e: "sync ?ctx site_crt []
             = \<lparr>ret = Err (Other (''issuer '' @ quoted ''default/prod-ca''
                                    @ '' for certificate '' @ quoted ''site''
                                    @ '' not ready'')),
                crt_after = site_crt, world_after = [],
                trace = [IssuerGet ''default'' ''prod-ca'']\<rparr>"
    using conjunct1 [OF main] by (simp add: Errorf_def site_crt_def)
  have c1: "ret (sync ?ctx site_crt [])
              = Err (Other (''issuer '' @ quoted ''default/prod-ca'' @ '' for certificate ''
                             @ quoted ''site'' @ '' not ready''))"
    and c2: "trace (sync ?ctx site_crt []) = [IssuerGet ''default'' ''prod-ca'']"
    and c3: "world_after (sync ?ctx site_crt []) = []"
    unfolding e by simp_all
  have c4: "store_reads (sync ?ctx site_crt []) = []"
    and c5: "store_writes (sync ?ctx site_crt []) = []"
    using main by blast+
  show ?thesis using g c1 c2 c3 c4 c5 by blast
qed

end
